theory Spec2Isabelle
  imports Main
begin

section \<open>JavaScript values\<close>

text \<open>
  The front end handles JSON data and small object literals. A value is one of the
  JavaScript primitives, an array or an object; an object is its list of own properties
  in insertion order. Numbers are modelled as integers together with \<open>NaN\<close>;
  fractional and infinite doubles are outside the model. A string is the list of the
  bytes of its UTF-8 encoding.
\<close>

datatype jsval =
    JUndefined
  | JNull
  | JBool bool
  | JNum int
  | JNaN
  | JStr string
  | JArr "jsval list"
  | JObj "(string \<times> jsval) list"

text \<open>Truthiness, as tested by \<open>if (v)\<close>, \<open>v ? a : b\<close> and \<open>v || d\<close>.\<close>

fun js_truthy :: "jsval \<Rightarrow> bool" where
  "js_truthy JUndefined = False"
| "js_truthy JNull = False"
| "js_truthy (JBool b) = b"
| "js_truthy (JNum n) = (if n = 0 then False else True)"
| "js_truthy JNaN = False"
| "js_truthy (JStr s) = (if s = [] then False else True)"
| "js_truthy (JArr xs) = True"
| "js_truthy (JObj ps) = True"

text \<open>\<open>a || b\<close> on strings: the first operand unless it is empty.\<close>

definition or_else :: "string \<Rightarrow> string \<Rightarrow> string" where
  "or_else a b = (if a = [] then b else a)"

text \<open>Decimal digits of a natural number, most significant first.\<close>

fun digits :: "nat \<Rightarrow> string" where
  "digits n =
     (if n < 10 then [''0123456789'' ! n]
      else digits (n div 10) @ [''0123456789'' ! (n mod 10)])"

declare digits.simps [simp del]

definition string_of_int :: "int \<Rightarrow> string" where
  "string_of_int i = (if i < 0 then CHR ''-'' # digits (nat (- i)) else digits (nat i))"

text \<open>
  \<open>String(v)\<close>, which is also what a template literal \<open>`${v}`\<close> inserts. An array
  is the comma-joined list of its elements, with \<open>null\<close> and \<open>undefined\<close> elements
  empty.
\<close>

fun js_String :: "jsval \<Rightarrow> string"
  and js_join :: "jsval list \<Rightarrow> string" where
  "js_String JUndefined = ''undefined''"
| "js_String JNull = ''null''"
| "js_String (JBool b) = (if b then ''true'' else ''false'')"
| "js_String (JNum n) = string_of_int n"
| "js_String JNaN = ''NaN''"
| "js_String (JStr s) = s"
| "js_String (JArr xs) = js_join xs"
| "js_String (JObj ps) = ''[object Object]''"
| "js_join [] = []"
| "js_join (x # xs) =
     (if x = JUndefined \<or> x = JNull then [] else js_String x)
     @ (if xs = [] then [] else CHR '','' # js_join xs)"

section \<open>The request helper \<open>req\<close> of backendAPI.js\<close>

text \<open>
  A value that \<open>req\<close> throws is either the object literal
  \<open>{ status: res.status, message: detail || "Request failed" }\<close> or an exception raised
  by the platform: \<open>fetch\<close> rejects with a \<open>TypeError\<close> on a network failure and with
  an \<open>AbortError\<close> when the 30 second timer aborts the call; \<open>res.json()\<close> rejects
  with a \<open>SyntaxError\<close> on a malformed body.
\<close>

datatype exn_name = TypeError | AbortError | SyntaxError

datatype thrown =
    Failure nat string
  | Exn exn_name string

text \<open>\<open>err?.status\<close>: exceptions have no such property.\<close>

fun err_status :: "thrown \<Rightarrow> nat option" where
  "err_status (Failure s m) = Some s"
| "err_status (Exn k m) = None"

fun err_message :: "thrown \<Rightarrow> string" where
  "err_message (Failure s m) = m"
| "err_message (Exn k m) = m"

record response =
  status :: nat
  statusText :: string
  body_text :: "string option"
  body_json :: "exn_name \<times> string + jsval"

text \<open>
  \<open>body_text\<close> is what \<open>await res.text()\<close> gives (\<open>None\<close> when the read rejects),
  \<open>body_json\<close> what \<open>await res.json()\<close> gives (\<open>Inl\<close> the name and message of
  the exception it rejects with). \<open>res.ok\<close> holds for the statuses 200 to 299.
\<close>

definition ok :: "response \<Rightarrow> bool" where
  "ok res = (200 \<le> status res \<and> status res \<le> 299)"

datatype fetched =
    Responds response
  | Rejects exn_name string

text \<open>
  One attempt of a call: what \<open>fetch\<close> settles with, and the number of clock ticks
  from the moment the attempt is issued until its result is known.
\<close>

record attempt =
  reply :: fetched
  latency :: nat

record options =
  opt_method :: "string option"
  opt_body :: "jsval option"
  opt_token :: "string option"
  opt_retries :: "int option"

record request =
  req_method :: string
  req_url :: string
  req_headers :: "(string \<times> string) list"
  req_body :: "jsval option"

text \<open>
  The result of one call of \<open>req\<close>: the value the promise settles with (\<open>Inl\<close> a
  rejection), the \<open>fetch\<close> calls it issued, each with the tick at which it was issued,
  and the tick at which the promise settles.
\<close>

record call =
  outcome :: "thrown + jsval"
  sent :: "(nat \<times> request) list"
  settled :: nat

definition CLIENT_TAG :: string where
  "CLIENT_TAG = ''ZAF-Frontend''"

definition CLIENT_VERSION :: string where
  "CLIENT_VERSION = ''2.0.0''"

text \<open>Destructuring defaults: \<open>method = "GET"\<close> and \<open>retries = 1\<close>.\<close>

definition method_of :: "options \<Rightarrow> string" where
  "method_of opts = (case opt_method opts of None \<Rightarrow> ''GET'' | Some m \<Rightarrow> m)"

definition retries_of :: "options \<Rightarrow> int" where
  "retries_of opts = (case opt_retries opts of None \<Rightarrow> 1 | Some r \<Rightarrow> r)"

text \<open>
  The argument of \<open>fetch\<close>. The body is kept as the value that \<open>JSON.stringify\<close>
  serialises; a missing or falsy body sends none.
\<close>

definition fetch_request :: "string \<Rightarrow> string \<Rightarrow> options \<Rightarrow> request" where
  "fetch_request base path opts =
     \<lparr> req_method = method_of opts,
       req_url = base @ path,
       req_headers =
         [(''Content-Type'', ''application/json''),
          (''X-Request-Source'', CLIENT_TAG),
          (''X-Client-Version'', CLIENT_VERSION)]
         @ (case opt_token opts of
              None \<Rightarrow> []
            | Some t \<Rightarrow> if t = [] then [] else [(''Authorization'', ''Bearer '' @ t)]),
       req_body =
         (case opt_body opts of
            None \<Rightarrow> None
          | Some b \<Rightarrow> if js_truthy b then Some b else None) \<rparr>"

text \<open>The object thrown in the \<open>!res.ok\<close> branch.\<close>

definition failure_of :: "response \<Rightarrow> thrown" where
  "failure_of res =
     (let detail = (case body_text res of Some t \<Rightarrow> t | None \<Rightarrow> statusText res)
      in Failure (status res) (or_else detail ''Request failed''))"

text \<open>The \<open>try\<close> block of \<open>req\<close>: what one attempt returns or throws.\<close>

definition attempt_result :: "fetched \<Rightarrow> thrown + jsval" where
  "attempt_result f =
     (case f of
        Rejects k m \<Rightarrow> Inl (Exn k m)
      | Responds res \<Rightarrow>
          if ok res
          then (case body_json res of Inl x \<Rightarrow> Inl (Exn (fst x) (snd x)) | Inr j \<Rightarrow> Inr j)
          else Inl (failure_of res))"

text \<open>The test of the \<open>catch\<close> block apart from the retry budget.\<close>

definition transient :: "thrown \<Rightarrow> bool" where
  "transient e =
     (err_status e = Some 502 \<or> err_status e = Some 503 \<or> err_status e = Some 504)"

text \<open>The options of the recursive call: \<open>{ method, body, token, retries: retries - 1 }\<close>.\<close>

definition retry_options :: "options \<Rightarrow> options" where
  "retry_options opts =
     \<lparr> opt_method = Some (method_of opts),
       opt_body = opt_body opts,
       opt_token = opt_token opts,
       opt_retries = Some (retries_of opts - 1) \<rparr>"

text \<open>
  \<open>req base wire now path opts\<close>: \<open>base\<close> is the module variable \<open>BASE\<close>,
  \<open>wire k\<close> the \<open>k\<close>-th attempt of this call, \<open>now\<close> the tick of the call. Console
  output is not modelled.
\<close>

function req :: "string \<Rightarrow> (nat \<Rightarrow> attempt) \<Rightarrow> nat \<Rightarrow> string \<Rightarrow> options \<Rightarrow> call" where
  "req base wire now path opts =
     (case attempt_result (reply (wire 0)) of
        Inr v \<Rightarrow>
          \<lparr> outcome = Inr v,
            sent = [(now, fetch_request base path opts)],
            settled = now + latency (wire 0) \<rparr>
      | Inl e \<Rightarrow>
          if 0 < retries_of opts \<and> transient e
          then (let c = req base (\<lambda>k. wire (Suc k)) (now + latency (wire 0)) path
                          (retry_options opts)
                in c \<lparr> sent := (now, fetch_request base path opts) # sent c \<rparr>)
          else \<lparr> outcome = Inl e,
                 sent = [(now, fetch_request base path opts)],
                 settled = now + latency (wire 0) \<rparr>)"
  by pat_completeness auto
termination
  by (relation "measure (\<lambda>(base, wire, now, path, opts). nat (retries_of opts))")
     (auto simp: retries_of_def retry_options_def)

declare req.simps [simp del]

section \<open>The gateway functions of backendAPI.js\<close>

text \<open>
  Own properties of an object literal, in insertion order (integer-like keys, which
  JavaScript lists first, do not occur here): reading one, and \<open>{ ...o, k: v }\<close>.
\<close>

definition own_prop :: "(string \<times> jsval) list \<Rightarrow> string \<Rightarrow> jsval" where
  "own_prop ps k = (case map_of ps k of None \<Rightarrow> JUndefined | Some v \<Rightarrow> v)"

fun set_prop :: "(string \<times> jsval) list \<Rightarrow> string \<Rightarrow> jsval \<Rightarrow> (string \<times> jsval) list" where
  "set_prop [] k v = [(k, v)]"
| "set_prop (p # ps) k v = (if fst p = k then (k, v) # ps else p # set_prop ps k v)"

text \<open>
  \<open>new URLSearchParams(obj)\<close> holds one entry per property, the value converted to a
  string; \<open>toString()\<close> serialises the entries as
  \<open>application/x-www-form-urlencoded\<close>: letters, digits and \<open>*-._\<close> stay, a space
  becomes \<open>+\<close>, every other byte becomes \<open>%XX\<close>.
\<close>

definition URLSearchParams :: "(string \<times> jsval) list \<Rightarrow> (string \<times> string) list" where
  "URLSearchParams ps = map (\<lambda>p. (fst p, js_String (snd p))) ps"

definition url_safe :: "char \<Rightarrow> bool" where
  "url_safe c =
     (c \<in> set ''ABCDEFGHIJKLMNOPQRSTUVWXYZabcdefghijklmnopqrstuvwxyz0123456789*-._'')"

definition urlencode_char :: "char \<Rightarrow> string" where
  "urlencode_char c =
     (if url_safe c then [c]
      else if c = CHR '' '' then ''+''
      else [CHR ''%'', ''0123456789ABCDEF'' ! (of_char c div 16),
            ''0123456789ABCDEF'' ! (of_char c mod 16)])"

definition urlencode :: "string \<Rightarrow> string" where
  "urlencode s = concat (map urlencode_char s)"

definition entry_string :: "string \<times> string \<Rightarrow> string" where
  "entry_string e = urlencode (fst e) @ ''='' @ urlencode (snd e)"

fun join_amp :: "string list \<Rightarrow> string" where
  "join_amp [] = []"
| "join_amp [x] = x"
| "join_amp (x # y # ys) = x @ ''&'' @ join_amp (y # ys)"

definition toString :: "(string \<times> string) list \<Rightarrow> string" where
  "toString es = join_amp (map entry_string es)"

text \<open>An options literal \<open>{ token }\<close>, \<open>{ method, token }\<close> or \<open>{ method, token, body }\<close>.\<close>

definition options_of ::
  "string option \<Rightarrow> string option \<Rightarrow> jsval option \<Rightarrow> options" where
  "options_of m token b =
     \<lparr> opt_method = m, opt_body = b, opt_token = token, opt_retries = None \<rparr>"

definition getUsers :: "string \<Rightarrow> string option \<Rightarrow> (nat \<Rightarrow> attempt) \<Rightarrow> nat \<Rightarrow> call" where
  "getUsers base token wire now = req base wire now ''/api/users'' (options_of None token None)"

definition getMeetingWindow ::
  "string \<Rightarrow> string option \<Rightarrow> (nat \<Rightarrow> attempt) \<Rightarrow> nat \<Rightarrow> call" where
  "getMeetingWindow base token wire now =
     req base wire now ''/api/meeting-window'' (options_of None token None)"

text \<open>The object handed to \<open>URLSearchParams\<close> by \<open>getTickets\<close>.\<close>

definition tickets_query :: "(string \<times> jsval) list \<Rightarrow> (string \<times> jsval) list" where
  "tickets_query params =
     set_prop params ''bucketed''
       (JStr (if own_prop params ''bucketed'' = JUndefined then ''true''
              else js_String (own_prop params ''bucketed'')))"

definition getTickets ::
  "string \<Rightarrow> string option \<Rightarrow> (nat \<Rightarrow> attempt) \<Rightarrow> nat \<Rightarrow> (string \<times> jsval) list \<Rightarrow> call" where
  "getTickets base token wire now params =
     (let q = toString (URLSearchParams (tickets_query params))
      in req base wire now (''/api/tickets?'' @ q) (options_of None token None))"

definition patchTicket ::
  "string \<Rightarrow> string option \<Rightarrow> (nat \<Rightarrow> attempt) \<Rightarrow> nat \<Rightarrow> jsval \<Rightarrow> jsval \<Rightarrow> call" where
  "patchTicket base token wire now ident patch =
     req base wire now (''/api/tickets/'' @ js_String ident)
       (options_of (Some ''PATCH'') token (Some patch))"

definition addComment ::
  "string \<Rightarrow> string option \<Rightarrow> (nat \<Rightarrow> attempt) \<Rightarrow> nat \<Rightarrow> jsval \<Rightarrow> string \<Rightarrow> bool \<Rightarrow> call" where
  "addComment base token wire now ident body isPublic =
     req base wire now (''/api/tickets/'' @ js_String ident @ ''/comments'')
       (options_of (Some ''POST'') token
          (Some (JObj [(''body'', JStr body), (''public'', JBool isPublic)])))"

section \<open>The hook \<open>useTickets\<close>\<close>

record tickets_state =
  meetingWindow :: jsval
  rows :: jsval
  loading :: bool
  err :: string

text \<open>
  The network as one operation of the hook sees it: the attempts of its write (the
  \<open>PATCH\<close> or \<open>POST\<close>), of the meeting-window read and of the ticket read.
\<close>

record network =
  write_wire :: "nat \<Rightarrow> attempt"
  window_wire :: "nat \<Rightarrow> attempt"
  tickets_wire :: "nat \<Rightarrow> attempt"

text \<open>
  A run of one operation: the state once it has finished, the \<open>fetch\<close> calls issued
  with their ticks, and the tick at which it finishes.
\<close>

record hook_run =
  state :: tickets_state
  requests :: "(nat \<times> request) list"
  finished :: nat

text \<open>
  \<open>await Promise.all([p1, p2])\<close>: fulfilled with both values once both promises are
  fulfilled, rejected with the reason of the promise that rejects first, at the tick of
  that rejection. Two rejections at the same tick are taken in array order.
\<close>

definition Promise_all :: "call \<Rightarrow> call \<Rightarrow> (thrown + jsval \<times> jsval) \<times> nat" where
  "Promise_all p1 p2 =
     (case outcome p1 of
        Inr a \<Rightarrow>
          (case outcome p2 of
             Inr b \<Rightarrow> (Inr (a, b), max (settled p1) (settled p2))
           | Inl e2 \<Rightarrow> (Inl e2, settled p2))
      | Inl e1 \<Rightarrow>
          (case outcome p2 of
             Inr b \<Rightarrow> (Inl e1, settled p1)
           | Inl e2 \<Rightarrow>
               if settled p1 \<le> settled p2 then (Inl e1, settled p1)
               else (Inl e2, settled p2)))"

text \<open>\<open>String(e)\<close> for a thrown value.\<close>

fun name_of :: "exn_name \<Rightarrow> string" where
  "name_of TypeError = ''TypeError''"
| "name_of AbortError = ''AbortError''"
| "name_of SyntaxError = ''SyntaxError''"

fun thrown_String :: "thrown \<Rightarrow> string" where
  "thrown_String (Failure s m) = ''[object Object]''"
| "thrown_String (Exn k m) = (if m = [] then name_of k else name_of k @ '': '' @ m)"

text \<open>The message that the \<open>catch\<close> block of \<open>refresh\<close> stores.\<close>

definition refresh_message :: "thrown \<Rightarrow> string" where
  "refresh_message e =
     (case err_status e of
        None \<Rightarrow> or_else (err_message e) (thrown_String e)
      | Some s \<Rightarrow>
          if s = 0 then or_else (err_message e) (thrown_String e)
          else ''Error '' @ digits s @ '': '' @ or_else (err_message e) ''Unknown error'')"

text \<open>
  \<open>v.k\<close>: a \<open>TypeError\<close> on \<open>null\<close> and \<open>undefined\<close>, the own property of an object,
  \<open>undefined\<close> on the other values (for the property names used here).
\<close>

fun get_member :: "jsval \<Rightarrow> string \<Rightarrow> thrown + jsval" where
  "get_member JUndefined k = Inl (Exn TypeError ''Cannot read properties of undefined'')"
| "get_member JNull k = Inl (Exn TypeError ''Cannot read properties of null'')"
| "get_member (JObj ps) k = Inr (own_prop ps k)"
| "get_member v k = Inr JUndefined"

definition refresh ::
  "string \<Rightarrow> string option \<Rightarrow> network \<Rightarrow> nat \<Rightarrow> tickets_state \<Rightarrow> (string \<times> jsval) list
     \<Rightarrow> hook_run" where
  "refresh base token net now st params =
     (let st1 = st \<lparr> loading := True, err := [] \<rparr>;
          p1 = getMeetingWindow base token (window_wire net) now;
          p2 = getTickets base token (tickets_wire net) now params;
          r = Promise_all p1 p2;
          st2 = (case fst r of
                   Inl e \<Rightarrow> st1 \<lparr> err := refresh_message e \<rparr>
                 | Inr vs \<Rightarrow>
                     (case get_member (snd vs) ''rows'' of
                        Inl e \<Rightarrow> st1 \<lparr> meetingWindow := fst vs, err := refresh_message e \<rparr>
                      | Inr v \<Rightarrow>
                          st1 \<lparr> meetingWindow := fst vs,
                                rows := (if js_truthy v then v else JArr []) \<rparr>))
      in \<lparr> state = st2 \<lparr> loading := False \<rparr>,
           requests = sent p1 @ sent p2,
           finished = snd r \<rparr>)"

text \<open>
  The three mutations. Each awaits its write and then \<open>refresh()\<close>, whose parameter
  defaults to \<open>{}\<close>; \<open>refresh\<close> catches its own failures, so the \<open>catch\<close> block of a
  mutation sees the failures of the write only.
\<close>

definition updateStatus ::
  "string \<Rightarrow> string option \<Rightarrow> network \<Rightarrow> nat \<Rightarrow> tickets_state \<Rightarrow> jsval \<Rightarrow> jsval \<Rightarrow> hook_run" where
  "updateStatus base token net now st ident status_value =
     (let p = patchTicket base token (write_wire net) now ident
                (JObj [(''status'', status_value)])
      in case outcome p of
           Inr v \<Rightarrow>
             (let r = refresh base token net (settled p) st []
              in r \<lparr> requests := sent p @ requests r \<rparr>)
         | Inl e \<Rightarrow>
             \<lparr> state = st \<lparr> err := or_else (err_message e) ''Failed to update status'' \<rparr>,
               requests = sent p,
               finished = settled p \<rparr>)"

definition reassign ::
  "string \<Rightarrow> string option \<Rightarrow> network \<Rightarrow> nat \<Rightarrow> tickets_state \<Rightarrow> jsval \<Rightarrow> jsval \<Rightarrow> hook_run" where
  "reassign base token net now st ident assignee_id =
     (let p = patchTicket base token (write_wire net) now ident
                (JObj [(''assignee_id'', assignee_id)])
      in case outcome p of
           Inr v \<Rightarrow>
             (let r = refresh base token net (settled p) st []
              in r \<lparr> requests := sent p @ requests r \<rparr>)
         | Inl e \<Rightarrow>
             \<lparr> state = st \<lparr> err := or_else (err_message e) ''Failed to reassign ticket'' \<rparr>,
               requests = sent p,
               finished = settled p \<rparr>)"

definition addNote ::
  "string \<Rightarrow> string option \<Rightarrow> network \<Rightarrow> nat \<Rightarrow> tickets_state \<Rightarrow> jsval \<Rightarrow> string \<Rightarrow> bool \<Rightarrow> hook_run" where
  "addNote base token net now st ident body isPublic =
     (let p = addComment base token (write_wire net) now ident body isPublic
      in case outcome p of
           Inr v \<Rightarrow>
             (let r = refresh base token net (settled p) st []
              in r \<lparr> requests := sent p @ requests r \<rparr>)
         | Inl e \<Rightarrow>
             \<lparr> state = st \<lparr> err := or_else (err_message e) ''Failed to add note'' \<rparr>,
               requests = sent p,
               finished = settled p \<rparr>)"

section \<open>The row components: \<open>TicketRow\<close> and \<open>NotesEditor\<close>\<close>

text \<open>
  The white space that \<open>trim()\<close> removes and that \<open>Number\<close> skips: the code points
  U+0009 to U+000D, U+0020, U+00A0, U+1680, U+2000 to U+200A, U+2028, U+2029, U+202F,
  U+205F, U+3000 and U+FEFF, each as its UTF-8 bytes.
\<close>

definition white_space :: "string list" where
  "white_space =
     [[CHR 0x09], [CHR 0x0A], [CHR 0x0B], [CHR 0x0C], [CHR 0x0D], [CHR 0x20],
      [CHR 0xC2, CHR 0xA0], [CHR 0xE1, CHR 0x9A, CHR 0x80],
      [CHR 0xE2, CHR 0x80, CHR 0x80], [CHR 0xE2, CHR 0x80, CHR 0x81],
      [CHR 0xE2, CHR 0x80, CHR 0x82], [CHR 0xE2, CHR 0x80, CHR 0x83],
      [CHR 0xE2, CHR 0x80, CHR 0x84], [CHR 0xE2, CHR 0x80, CHR 0x85],
      [CHR 0xE2, CHR 0x80, CHR 0x86], [CHR 0xE2, CHR 0x80, CHR 0x87],
      [CHR 0xE2, CHR 0x80, CHR 0x88], [CHR 0xE2, CHR 0x80, CHR 0x89],
      [CHR 0xE2, CHR 0x80, CHR 0x8A], [CHR 0xE2, CHR 0x80, CHR 0xA8],
      [CHR 0xE2, CHR 0x80, CHR 0xA9], [CHR 0xE2, CHR 0x80, CHR 0xAF],
      [CHR 0xE2, CHR 0x81, CHR 0x9F], [CHR 0xE3, CHR 0x80, CHR 0x80],
      [CHR 0xEF, CHR 0xBB, CHR 0xBF]]"

text \<open>
  The length of the member of \<open>ws\<close> that \<open>s\<close> starts with, 0 when it starts with
  none; \<open>strip ws s\<close> removes such members from the front of \<open>s\<close> as long as there
  is one. Stripping the end is stripping the front of the reversed string of the
  reversed members.
\<close>

definition leading :: "string list \<Rightarrow> string \<Rightarrow> nat" where
  "leading ws s =
     (case find (\<lambda>w. take (length w) s = w) ws of None \<Rightarrow> 0 | Some w \<Rightarrow> length w)"

function strip :: "string list \<Rightarrow> string \<Rightarrow> string" where
  "strip ws s = (if leading ws s = 0 then s else strip ws (drop (leading ws s) s))"
  by pat_completeness auto
termination
proof (relation "measure (\<lambda>(ws, s). length s)")
  show "wf (measure (\<lambda>(ws, s). length s))" by simp
next
  fix ws :: "string list" and s :: string
  assume "leading ws s \<noteq> 0"
  then obtain w where "take (length w) s = w" "length w \<noteq> 0"
    by (auto simp: leading_def find_Some_iff split: option.splits)
  then have "s \<noteq> []" by auto
  with \<open>leading ws s \<noteq> 0\<close>
  show "((ws, drop (leading ws s) s), (ws, s)) \<in> measure (\<lambda>(ws, s). length s)"
    by simp
qed

declare strip.simps [simp del]

definition trim :: "string \<Rightarrow> string" where
  "trim s = rev (strip (map rev white_space) (rev (strip white_space s)))"

text \<open>
  A result of the model: a value, or \<open>Unmodelled\<close> where the JavaScript value is a
  number that this model does not represent exactly. Nothing is stated about a run that
  is \<open>Unmodelled\<close>.
\<close>

datatype 'a modelled =
    Modelled 'a
  | Unmodelled

text \<open>
  \<open>Number(v)\<close>. A string is stripped of white space; the empty string is 0 and a
  decimal integer literal of magnitude at most \<open>2^53\<close>, with an optional sign, is its
  value. Every other string is \<open>Unmodelled\<close>: it is \<open>NaN\<close>, or a literal with a
  fraction, an exponent, a radix prefix or \<open>Infinity\<close>, or a negative zero, or an
  integer that the double format may round.
\<close>

definition is_digit :: "char \<Rightarrow> bool" where
  "is_digit c = (c \<in> set ''0123456789'')"

definition decimal :: "string \<Rightarrow> nat" where
  "decimal s = foldl (\<lambda>n c. 10 * n + (of_char c - 48)) 0 s"

definition Number_of_digits :: "string \<Rightarrow> int option" where
  "Number_of_digits s =
     (if s = [] then None
      else if list_all is_digit s \<and> decimal s \<le> 2 ^ 53 then Some (int (decimal s))
      else None)"

definition Number_of_string :: "string \<Rightarrow> jsval modelled" where
  "Number_of_string s =
     (case trim s of
        [] \<Rightarrow> Modelled (JNum 0)
      | c # cs \<Rightarrow>
          if c = CHR ''-''
          then (case Number_of_digits cs of
                  None \<Rightarrow> Unmodelled
                | Some n \<Rightarrow> if n = 0 then Unmodelled else Modelled (JNum (- n)))
          else if c = CHR ''+''
          then (case Number_of_digits cs of None \<Rightarrow> Unmodelled | Some n \<Rightarrow> Modelled (JNum n))
          else (case Number_of_digits (c # cs) of
                  None \<Rightarrow> Unmodelled
                | Some n \<Rightarrow> Modelled (JNum n)))"

fun js_Number :: "jsval \<Rightarrow> jsval modelled" where
  "js_Number JUndefined = Modelled JNaN"
| "js_Number JNull = Modelled (JNum 0)"
| "js_Number (JBool b) = Modelled (JNum (if b then 1 else 0))"
| "js_Number (JNum n) = Modelled (JNum n)"
| "js_Number JNaN = Modelled JNaN"
| "js_Number (JStr s) = Number_of_string s"
| "js_Number (JArr xs) = Number_of_string (js_join xs)"
| "js_Number (JObj ps) = Modelled JNaN"

text \<open>An entry of the list \<open>users\<close> that \<open>getUsers\<close> returned.\<close>

record user =
  u_id :: jsval
  u_name :: jsval
  u_group_id :: jsval

text \<open>
  The local state of a row, and what an event handler of the row does, in program order:
  calls of the state setters and of the callback \<open>onReassign\<close>.
\<close>

record row_state =
  row_status :: jsval
  row_assignee :: jsval
  row_group :: jsval

datatype row_effect =
    SetAssignee string
  | SetGroup jsval
  | OnReassign jsval jsval

text \<open>
  The \<open>onChange\<close> handler of the assignee \<open>select\<close>, up to its \<open>await\<close>;
  \<open>newAssignee\<close> is \<open>e.target.value\<close> and \<open>tid\<close> is \<open>t.id\<close>.
\<close>

definition onChange_assignee ::
  "user list \<Rightarrow> jsval \<Rightarrow> string \<Rightarrow> row_effect list modelled" where
  "onChange_assignee users tid newAssignee =
     (if newAssignee = [] then Modelled [SetAssignee newAssignee]
      else (case find (\<lambda>u. js_String (u_id u) = newAssignee) users of
              Some selected \<Rightarrow>
                (case js_Number (u_id selected) of
                   Unmodelled \<Rightarrow> Unmodelled
                 | Modelled n \<Rightarrow>
                     Modelled
                       [SetAssignee newAssignee,
                        SetGroup (u_group_id selected),
                        OnReassign tid
                          (JObj [(''assignee_id'', n), (''group_id'', u_group_id selected)])])
            | None \<Rightarrow>
                (case js_Number (JStr newAssignee) of
                   Unmodelled \<Rightarrow> Unmodelled
                 | Modelled n \<Rightarrow>
                     Modelled
                       [SetAssignee newAssignee,
                        OnReassign tid (JObj [(''assignee_id'', n)])])))"



text \<open>
  The calls of \<open>onReassign\<close> that a handler makes: the state that the row holds at the
  call, the ticket id and the second argument. A call belongs to the synchronous part of
  the handler, as does all that it runs up to the \<open>fetch\<close> of its write, so the
  state at the call is that of the last render \<open>r\<close>, whatever setters were called
  before.
\<close>

fun reassign_calls :: "row_state \<Rightarrow> row_effect list \<Rightarrow> (row_state \<times> jsval \<times> jsval) list" where
  "reassign_calls r [] = []"
| "reassign_calls r (OnReassign i p # es) = (r, i, p) # reassign_calls r es"
| "reassign_calls r (SetAssignee a # es) = reassign_calls r es"
| "reassign_calls r (SetGroup g # es) = reassign_calls r es"

text \<open>
  The dashboard passes the hook's \<open>reassign\<close> as \<open>onReassign\<close>: the runs of the hook
  that a selection in the assignee \<open>select\<close> starts.
\<close>

definition select_assignee ::
  "string \<Rightarrow> string option \<Rightarrow> network \<Rightarrow> nat \<Rightarrow> tickets_state \<Rightarrow> row_state \<Rightarrow> user list
     \<Rightarrow> jsval \<Rightarrow> string \<Rightarrow> hook_run list modelled" where
  "select_assignee base token net now st r users tid newAssignee =
     map_modelled
       (\<lambda>es. map (\<lambda>c. reassign base token net now st (fst (snd c)) (snd (snd c)))
               (reassign_calls r es))
       (onChange_assignee users tid newAssignee)"

text \<open>The \<open>onClick\<close> handler of the button of \<open>NotesEditor\<close>.\<close>

datatype notes_effect =
    OnSubmit string bool
  | SetText string

definition NotesEditor_onClick :: "string \<Rightarrow> bool \<Rightarrow> notes_effect list" where
  "NotesEditor_onClick draft isPublic =
     (if trim draft = [] then [] else [OnSubmit (trim draft) isPublic, SetText []])"

section \<open>Example data\<close>

text \<open>
  A wire that answers with the attempts of a list, then with a fixed attempt; a
  success response carrying a JSON value, and a non-success response with its status
  text and body text.
\<close>

definition wire_of :: "attempt list \<Rightarrow> attempt \<Rightarrow> nat \<Rightarrow> attempt" where
  "wire_of as d k = (if k < length as then as ! k else d)"

definition success :: "jsval \<Rightarrow> nat \<Rightarrow> attempt" where
  "success j l =
     \<lparr> reply = Responds \<lparr> status = 200, statusText = ''OK'', body_text = Some [],
                          body_json = Inr j \<rparr>,
       latency = l \<rparr>"

definition failure :: "nat \<Rightarrow> string \<Rightarrow> string \<Rightarrow> nat \<Rightarrow> attempt" where
  "failure s st b l =
     \<lparr> reply = Responds \<lparr> status = s, statusText = st, body_text = Some b,
                          body_json = Inl (SyntaxError, ''Unexpected token'') \<rparr>,
       latency = l \<rparr>"

text \<open>A network on which every call succeeds at once, and the initial state of the hook.\<close>

definition ok_network :: network where
  "ok_network =
     \<lparr> write_wire = wire_of [] (success (JObj []) 1),
       window_wire =
         wire_of []
           (success (JObj [(''start'', JStr ''2025-09-01''), (''end'', JStr ''2025-09-15'')]) 1),
       tickets_wire = wire_of [] (success (JObj [(''rows'', JArr [JObj [(''id'', JNum 77)]])]) 1) \<rparr>"

definition initial_state :: tickets_state where
  "initial_state = \<lparr> meetingWindow = JNull, rows = JArr [], loading = True, err = [] \<rparr>"

text \<open>
  A network on which the write is refused with status 400, the meeting-window read fails
  with status 500 after one tick, and the ticket read succeeds after five ticks; two
  agents, and a row showing a ticket of the first.
\<close>

definition down_network :: network where
  "down_network =
     \<lparr> write_wire = wire_of [] (failure 400 ''Bad Request'' ''bad'' 1),
       window_wire = wire_of [] (failure 500 ''Internal Server Error'' ''boom'' 1),
       tickets_wire = wire_of [] (success (JObj [(''rows'', JArr [])]) 5) \<rparr>"

definition example_users :: "user list" where
  "example_users =
     [\<lparr> u_id = JNum 1, u_name = JStr ''Ann'', u_group_id = JStr ''AIMS'' \<rparr>,
      \<lparr> u_id = JNum 2, u_name = JStr ''Bo'', u_group_id = JStr ''Policy'' \<rparr>]"

definition example_row :: row_state where
  "example_row = \<lparr> row_status = JStr ''open'', row_assignee = JNum 1, row_group = JStr ''AIMS'' \<rparr>"

section \<open>Properties of \<open>req\<close>\<close>

lemma fetch_request_retry [simp]:
  "fetch_request base path (retry_options opts) = fetch_request base path opts"
  by (simp add: fetch_request_def retry_options_def method_of_def)

lemma retries_of_retry [simp]: "retries_of (retry_options opts) = retries_of opts - 1"
  by (simp add: retries_of_def retry_options_def)

lemma req_success:
  "attempt_result (reply (wire 0)) = Inr v \<Longrightarrow>
   req base wire now path opts =
     \<lparr> outcome = Inr v, sent = [(now, fetch_request base path opts)],
       settled = now + latency (wire 0) \<rparr>"
  by (subst req.simps) simp

lemma req_no_retry:
  "attempt_result (reply (wire 0)) = Inl e \<Longrightarrow> \<not> (0 < retries_of opts \<and> transient e) \<Longrightarrow>
   req base wire now path opts =
     \<lparr> outcome = Inl e, sent = [(now, fetch_request base path opts)],
       settled = now + latency (wire 0) \<rparr>"
  by (subst req.simps) auto

lemma req_retry:
  "attempt_result (reply (wire 0)) = Inl e \<Longrightarrow> 0 < retries_of opts \<Longrightarrow> transient e \<Longrightarrow>
   req base wire now path opts =
     (let c = req base (\<lambda>k. wire (Suc k)) (now + latency (wire 0)) path (retry_options opts)
      in c \<lparr> sent := (now, fetch_request base path opts) # sent c \<rparr>)"
  by (subst req.simps) simp

lemma req_last:
  "retries_of opts \<le> 0 \<Longrightarrow>
   req base wire now path opts =
     \<lparr> outcome = attempt_result (reply (wire 0)),
       sent = [(now, fetch_request base path opts)],
       settled = now + latency (wire 0) \<rparr>"
  by (subst req.simps) (simp split: sum.splits)

lemma req_default_retry:
  assumes "retries_of opts = 1" "attempt_result (reply (wire 0)) = Inl e" "transient e"
  shows "req base wire now path opts =
     \<lparr> outcome = attempt_result (reply (wire 1)),
       sent = [(now, fetch_request base path opts),
               (now + latency (wire 0), fetch_request base path opts)],
       settled = now + latency (wire 0) + latency (wire 1) \<rparr>"
  using assms by (simp add: req_retry req_last Let_def)

lemma transient_failure_of [simp]:
  "transient (failure_of res) = (status res = 502 \<or> status res = 503 \<or> status res = 504)"
  by (simp add: transient_def failure_of_def Let_def)

lemma not_transient_Exn [simp]: "\<not> transient (Exn k m)"
  by (simp add: transient_def)

lemma attempt_result_not_ok:
  "\<not> ok res \<Longrightarrow> attempt_result (Responds res) = Inl (failure_of res)"
  by (simp add: attempt_result_def)

text \<open>
  C2. With the default retry budget (no \<open>retries\<close> option): a first attempt answered
  with status 502, 503 or 504 is followed by exactly one retry, whose result is the
  result of the call; a first attempt answered with a 4xx status, or rejected by
  \<open>fetch\<close> (network error, or the abort of the timer) is not retried and its failure is
  the result of the call; two 503 answers in a row give the second failure after exactly
  two attempts.
\<close>

theorem req_retry_law:
  assumes "opt_retries opts = None"
  shows
    "(reply (wire 0) = Responds res \<and> (status res = 502 \<or> status res = 503 \<or> status res = 504)
        \<longrightarrow> req base wire now path opts =
              \<lparr> outcome = attempt_result (reply (wire 1)),
                sent = [(now, fetch_request base path opts),
                        (now + latency (wire 0), fetch_request base path opts)],
                settled = now + latency (wire 0) + latency (wire 1) \<rparr>)
   \<and> (reply (wire 0) = Responds res \<and> 400 \<le> status res \<and> status res \<le> 499
        \<longrightarrow> req base wire now path opts =
              \<lparr> outcome = Inl (failure_of res),
                sent = [(now, fetch_request base path opts)],
                settled = now + latency (wire 0) \<rparr>)
   \<and> (reply (wire 0) = Rejects k m
        \<longrightarrow> req base wire now path opts =
              \<lparr> outcome = Inl (Exn k m),
                sent = [(now, fetch_request base path opts)],
                settled = now + latency (wire 0) \<rparr>)
   \<and> (reply (wire 0) = Responds res \<and> status res = 503
        \<and> reply (wire 1) = Responds res' \<and> status res' = 503
        \<longrightarrow> outcome (req base wire now path opts) = Inl (failure_of res')
            \<and> length (sent (req base wire now path opts)) = 2)"
proof -
  have r1: "retries_of opts = 1"
    using assms by (simp add: retries_of_def)
  have transient_case: "req base wire now path opts =
              \<lparr> outcome = attempt_result (reply (wire 1)),
                sent = [(now, fetch_request base path opts),
                        (now + latency (wire 0), fetch_request base path opts)],
                settled = now + latency (wire 0) + latency (wire 1) \<rparr>"
    if "reply (wire 0) = Responds res" "status res = 502 \<or> status res = 503 \<or> status res = 504"
  proof -
    from that have "\<not> ok res" by (auto simp: ok_def)
    with that have "attempt_result (reply (wire 0)) = Inl (failure_of res)"
      by (simp add: attempt_result_not_ok)
    moreover from that have "transient (failure_of res)" by simp
    ultimately show ?thesis using r1 by (rule req_default_retry[rotated])
  qed
  have client_case: "req base wire now path opts =
              \<lparr> outcome = Inl (failure_of res),
                sent = [(now, fetch_request base path opts)],
                settled = now + latency (wire 0) \<rparr>"
    if "reply (wire 0) = Responds res" "400 \<le> status res" "status res \<le> 499"
  proof -
    from that have "\<not> ok res" by (auto simp: ok_def)
    with that have "attempt_result (reply (wire 0)) = Inl (failure_of res)"
      by (simp add: attempt_result_not_ok)
    moreover from that have "\<not> transient (failure_of res)" by simp
    ultimately show ?thesis by (simp add: req_no_retry)
  qed
  have reject_case: "req base wire now path opts =
              \<lparr> outcome = Inl (Exn k m),
                sent = [(now, fetch_request base path opts)],
                settled = now + latency (wire 0) \<rparr>"
    if "reply (wire 0) = Rejects k m"
  proof -
    from that have "attempt_result (reply (wire 0)) = Inl (Exn k m)"
      by (simp add: attempt_result_def)
    then show ?thesis by (simp add: req_no_retry)
  qed
  have twice: "outcome (req base wire now path opts) = Inl (failure_of res')
            \<and> length (sent (req base wire now path opts)) = 2"
    if "reply (wire 0) = Responds res" "status res = 503"
       "reply (wire 1) = Responds res'" "status res' = 503"
  proof -
    from that have "\<not> ok res'" by (simp add: ok_def)
    with that have "attempt_result (reply (wire 1)) = Inl (failure_of res')"
      by (simp add: attempt_result_not_ok)
    with transient_case[OF that(1)] that(2) show ?thesis by simp
  qed
  show ?thesis
    using transient_case client_case reject_case twice by blast
qed

theorem req_retry_law_witness:
  "req ''http://h'' (wire_of [failure 503 ''Service Unavailable'' ''busy'' 3] (success (JObj []) 2)) 0
       ''/api/users'' (options_of None None None)
     = \<lparr> outcome = Inr (JObj []),
         sent = [(0, fetch_request ''http://h'' ''/api/users'' (options_of None None None)),
                 (3, fetch_request ''http://h'' ''/api/users'' (options_of None None None))],
         settled = 5 \<rparr>
   \<and> req ''http://h'' (wire_of [] (failure 404 ''Not Found'' ''no such ticket'' 1)) 0
       ''/api/users'' (options_of None None None)
     = \<lparr> outcome = Inl (Failure 404 ''no such ticket''),
         sent = [(0, fetch_request ''http://h'' ''/api/users'' (options_of None None None))],
         settled = 1 \<rparr>
   \<and> req ''http://h''
       (wire_of [] \<lparr> reply = Rejects AbortError ''The operation was aborted.'', latency = 30000 \<rparr>) 0
       ''/api/users'' (options_of None None None)
     = \<lparr> outcome = Inl (Exn AbortError ''The operation was aborted.''),
         sent = [(0, fetch_request ''http://h'' ''/api/users'' (options_of None None None))],
         settled = 30000 \<rparr>
   \<and> outcome (req ''http://h''
       (wire_of [failure 503 ''Service Unavailable'' ''busy'' 3]
          (failure 503 ''Service Unavailable'' ''still busy'' 4)) 0
       ''/api/users'' (options_of None None None)) = Inl (Failure 503 ''still busy'')
   \<and> length (sent (req ''http://h''
       (wire_of [failure 503 ''Service Unavailable'' ''busy'' 3]
          (failure 503 ''Service Unavailable'' ''still busy'' 4)) 0
       ''/api/users'' (options_of None None None))) = 2"
  using
    req_retry_law [where opts = "options_of None None None"
      and wire = "wire_of [failure 503 ''Service Unavailable'' ''busy'' 3] (success (JObj []) 2)"
      and res = "\<lparr> status = 503, statusText = ''Service Unavailable'', body_text = Some ''busy'',
                   body_json = Inl (SyntaxError, ''Unexpected token'') \<rparr>"
      and base = "''http://h''" and now = 0 and path = "''/api/users''"]
    req_retry_law [where opts = "options_of None None None"
      and wire = "wire_of [] (failure 404 ''Not Found'' ''no such ticket'' 1)"
      and res = "\<lparr> status = 404, statusText = ''Not Found'', body_text = Some ''no such ticket'',
                   body_json = Inl (SyntaxError, ''Unexpected token'') \<rparr>"
      and base = "''http://h''" and now = 0 and path = "''/api/users''"]
    req_retry_law [where opts = "options_of None None None"
      and wire = "wire_of [] \<lparr> reply = Rejects AbortError ''The operation was aborted.'',
                                 latency = 30000 \<rparr>"
      and k = AbortError and m = "''The operation was aborted.''"
      and base = "''http://h''" and now = 0 and path = "''/api/users''"]
    req_retry_law [where opts = "options_of None None None"
      and wire = "wire_of [failure 503 ''Service Unavailable'' ''busy'' 3]
                    (failure 503 ''Service Unavailable'' ''still busy'' 4)"
      and res = "\<lparr> status = 503, statusText = ''Service Unavailable'', body_text = Some ''busy'',
                   body_json = Inl (SyntaxError, ''Unexpected token'') \<rparr>"
      and res' = "\<lparr> status = 503, statusText = ''Service Unavailable'',
                    body_text = Some ''still busy'',
                    body_json = Inl (SyntaxError, ''Unexpected token'') \<rparr>"
      and base = "''http://h''" and now = 0 and path = "''/api/users''"]
  by (simp add: options_of_def wire_of_def success_def failure_def attempt_result_def ok_def
        failure_of_def or_else_def)

lemma req_sent:
  "map snd (sent (req base wire now path opts))
     = replicate (length (sent (req base wire now path opts))) (fetch_request base path opts)"
proof (induction base wire now path opts rule: req.induct)
  case (1 base wire now path opts)
  show ?case
  proof (cases "attempt_result (reply (wire 0))")
    case (Inr v)
    then show ?thesis by (simp add: req_success)
  next
    case (Inl e)
    show ?thesis
    proof (cases "0 < retries_of opts \<and> transient e")
      case True
      with Inl 1 show ?thesis by (simp add: req_retry Let_def)
    next
      case False
      with Inl show ?thesis by (simp add: req_no_retry)
    qed
  qed
qed

lemma req_sent_hd:
  "\<exists>rest. sent (req base wire now path opts) = (now, fetch_request base path opts) # rest"
  by (subst req.simps) (simp split: sum.splits add: Let_def)

text \<open>
  C6 as stated fails: a 404 response whose body is empty and whose status text is
  \<open>Not Found\<close> gives the detail text \<open>Request failed\<close>, which is neither the body
  text nor the status text.
\<close>

theorem req_detail_counterexample:
  "outcome (req ''http://h'' (wire_of [] (failure 404 ''Not Found'' [] 1)) 0 ''/api/tickets/77''
      (options_of (Some ''PATCH'') None (Some (JObj [(''status'', JStr ''solved'')]))))
     = Inl (Failure 404 ''Request failed'')"
  by (simp add: req.simps options_of_def wire_of_def failure_def attempt_result_def ok_def
        failure_of_def or_else_def retries_of_def transient_def)

text \<open>
  C6, amended. A non-success response that is not retried (its status is not 502, 503
  or 504, or no retry is left) makes the call fail with the status of the response and
  a detail text that is the body text when the body can be read and is not empty, the
  status text when the body cannot be read and the status text is not empty, and
  \<open>Request failed\<close> otherwise.
\<close>

theorem req_failure_detail:
  assumes "reply (wire 0) = Responds res" and "\<not> ok res"
    and "\<not> (0 < retries_of opts \<and> (status res = 502 \<or> status res = 503 \<or> status res = 504))"
  shows "outcome (req base wire now path opts) =
           Inl (Failure (status res)
                  (case body_text res of
                     Some t \<Rightarrow> if t = [] then ''Request failed'' else t
                   | None \<Rightarrow> if statusText res = [] then ''Request failed'' else statusText res))"
proof -
  from assms(1,2) have "attempt_result (reply (wire 0)) = Inl (failure_of res)"
    by (simp add: attempt_result_not_ok)
  moreover from assms(3) have "\<not> (0 < retries_of opts \<and> transient (failure_of res))"
    by simp
  ultimately have "outcome (req base wire now path opts) = Inl (failure_of res)"
    by (simp add: req_no_retry)
  then show ?thesis
    by (simp add: failure_of_def or_else_def split: option.splits)
qed

theorem req_failure_detail_witness:
  "outcome (req ''http://h'' (wire_of [] (failure 404 ''Not Found'' ''no such ticket'' 1)) 0
      ''/api/tickets/77'' (options_of None None None)) = Inl (Failure 404 ''no such ticket'')
   \<and> outcome (req ''http://h''
        (wire_of [] \<lparr> reply = Responds \<lparr> status = 500, statusText = ''Internal Server Error'',
                         body_text = None, body_json = Inl (TypeError, ''body stream'') \<rparr>,
                       latency = 2 \<rparr>) 0
      ''/api/tickets/77'' (options_of None None None)) = Inl (Failure 500 ''Internal Server Error'')"
  using
    req_failure_detail [where wire = "wire_of [] (failure 404 ''Not Found'' ''no such ticket'' 1)"
      and res = "\<lparr> status = 404, statusText = ''Not Found'', body_text = Some ''no such ticket'',
                   body_json = Inl (SyntaxError, ''Unexpected token'') \<rparr>"
      and opts = "options_of None None None" and base = "''http://h''" and now = 0
      and path = "''/api/tickets/77''"]
    req_failure_detail [where wire = "wire_of [] \<lparr> reply = Responds \<lparr> status = 500,
                         statusText = ''Internal Server Error'',
                         body_text = None, body_json = Inl (TypeError, ''body stream'') \<rparr>,
                       latency = 2 \<rparr>"
      and res = "\<lparr> status = 500, statusText = ''Internal Server Error'',
                         body_text = None, body_json = Inl (TypeError, ''body stream'') \<rparr>"
      and opts = "options_of None None None" and base = "''http://h''" and now = 0
      and path = "''/api/tickets/77''"]
  by (simp add: wire_of_def failure_def ok_def)

section \<open>Properties of \<open>getTickets\<close>\<close>

lemma set_prop_mem: "(k, v) \<in> set (set_prop ps k v)"
  by (induction ps) auto

lemma own_prop_None: "map_of ps k = None \<Longrightarrow> own_prop ps k = JUndefined"
  by (simp add: own_prop_def)

lemma own_prop_Some: "map_of ps k = Some v \<Longrightarrow> own_prop ps k = v"
  by (simp add: own_prop_def)

lemma URLSearchParams_mem:
  "(k, v) \<in> set ps \<Longrightarrow> (k, js_String v) \<in> set (URLSearchParams ps)"
  by (force simp: URLSearchParams_def)

lemma join_amp_mem:
  "x \<in> set xs \<Longrightarrow>
   \<exists>pre post. join_amp xs = pre @ x @ post
     \<and> (pre = [] \<or> last pre = CHR ''&'') \<and> (post = [] \<or> hd post = CHR ''&'')"
proof (induction xs rule: join_amp.induct)
  case 1
  then show ?case by simp
next
  case (2 y)
  then have "join_amp [y] = [] @ x @ []" by simp
  then show ?case by blast
next
  case (3 y z zs)
  show ?case
  proof (cases "x = y")
    case True
    then have "join_amp (y # z # zs) = [] @ x @ (CHR ''&'' # join_amp (z # zs))" by simp
    then show ?thesis by (metis list.sel(1))
  next
    case False
    with 3 obtain pre post where pp: "join_amp (z # zs) = pre @ x @ post"
      "pre = [] \<or> last pre = CHR ''&''" "post = [] \<or> hd post = CHR ''&''"
      by auto
    then have "join_amp (y # z # zs) = (y @ ''&'' @ pre) @ x @ post" by simp
    moreover have "last (y @ ''&'' @ pre) = CHR ''&''" using pp(2) by auto
    ultimately show ?thesis using pp(3) by blast
  qed
qed

lemma urlencode_bucketed: "urlencode ''bucketed'' = ''bucketed''"
  by (simp add: urlencode_def urlencode_char_def url_safe_def)

lemma urlencode_true: "urlencode ''true'' = ''true''"
  by (simp add: urlencode_def urlencode_char_def url_safe_def)

lemma urlencode_false: "urlencode ''false'' = ''false''"
  by (simp add: urlencode_def urlencode_char_def url_safe_def)

lemma entry_string_bucketed: "entry_string (''bucketed'', s) = ''bucketed='' @ urlencode s"
  by (simp add: entry_string_def urlencode_bucketed)

text \<open>
  C10. Every request of \<open>getTickets\<close> goes to \<open>/api/tickets?\<close> followed by the
  serialised query. When \<open>params\<close> has no \<open>bucketed\<close> key the query has the component
  \<open>bucketed=true\<close>; when \<open>params.bucketed\<close> is present (not \<open>undefined\<close>) the entry
  for \<open>bucketed\<close> is its string form, which for the two values of the toggle is
  \<open>true\<close> or \<open>false\<close> as it stands.
\<close>

theorem getTickets_bucketed:
  fixes params :: "(string \<times> jsval) list"
  defines "q \<equiv> toString (URLSearchParams (tickets_query params))"
  shows
    "map (req_url \<circ> snd) (sent (getTickets base token wire now params))
       = replicate (length (sent (getTickets base token wire now params)))
           (base @ ''/api/tickets?'' @ q)
   \<and> sent (getTickets base token wire now params) \<noteq> []
   \<and> (map_of params ''bucketed'' = None \<longrightarrow>
        (''bucketed'', ''true'') \<in> set (URLSearchParams (tickets_query params))
        \<and> (\<exists>pre post. q = pre @ ''bucketed=true'' @ post
              \<and> (pre = [] \<or> last pre = CHR ''&'') \<and> (post = [] \<or> hd post = CHR ''&'')))
   \<and> (map_of params ''bucketed'' = Some v \<and> v \<noteq> JUndefined \<longrightarrow>
        (''bucketed'', js_String v) \<in> set (URLSearchParams (tickets_query params))
        \<and> (\<exists>pre post. q = pre @ ''bucketed='' @ urlencode (js_String v) @ post
              \<and> (pre = [] \<or> last pre = CHR ''&'') \<and> (post = [] \<or> hd post = CHR ''&'')))
   \<and> (map_of params ''bucketed'' = Some (JBool b) \<longrightarrow>
        (\<exists>pre post. q = pre @ ''bucketed='' @ (if b then ''true'' else ''false'') @ post
              \<and> (pre = [] \<or> last pre = CHR ''&'') \<and> (post = [] \<or> hd post = CHR ''&'')))"
proof -
  have urls: "map (req_url \<circ> snd) (sent (getTickets base token wire now params))
       = replicate (length (sent (getTickets base token wire now params)))
           (base @ ''/api/tickets?'' @ q)"
  proof -
    have "map (req_url \<circ> snd) (sent (getTickets base token wire now params))
        = map req_url (map snd (sent (getTickets base token wire now params)))"
      by simp
    also have "\<dots> = replicate (length (sent (getTickets base token wire now params)))
           (base @ ''/api/tickets?'' @ q)"
      unfolding getTickets_def Let_def q_def
      by (subst req_sent) (simp add: fetch_request_def)
    finally show ?thesis .
  qed
  have nonempty: "sent (getTickets base token wire now params) \<noteq> []"
    using req_sent_hd[of base wire now _ "options_of None token None"]
    unfolding getTickets_def Let_def by (metis list.discI)
  have component: "\<exists>pre post. q = pre @ ''bucketed='' @ urlencode s @ post
              \<and> (pre = [] \<or> last pre = CHR ''&'') \<and> (post = [] \<or> hd post = CHR ''&'')"
    if "(''bucketed'', s) \<in> set (URLSearchParams (tickets_query params))" for s
  proof -
    from that have "entry_string (''bucketed'', s)
        \<in> set (map entry_string (URLSearchParams (tickets_query params)))"
      by simp
    from join_amp_mem[OF this] show ?thesis
      by (simp add: q_def toString_def entry_string_bucketed)
  qed
  have absent: "(''bucketed'', ''true'') \<in> set (URLSearchParams (tickets_query params))"
    if "map_of params ''bucketed'' = None"
  proof -
    from that have "tickets_query params = set_prop params ''bucketed'' (JStr ''true'')"
      by (simp add: tickets_query_def own_prop_None)
    then have "(''bucketed'', JStr ''true'') \<in> set (tickets_query params)"
      by (simp add: set_prop_mem)
    from URLSearchParams_mem[OF this] show ?thesis by simp
  qed
  have present: "(''bucketed'', js_String v) \<in> set (URLSearchParams (tickets_query params))"
    if "map_of params ''bucketed'' = Some v" "v \<noteq> JUndefined" for v
  proof -
    from that have "tickets_query params = set_prop params ''bucketed'' (JStr (js_String v))"
      by (simp add: tickets_query_def own_prop_Some)
    then have "(''bucketed'', JStr (js_String v)) \<in> set (tickets_query params)"
      by (simp add: set_prop_mem)
    from URLSearchParams_mem[OF this] show ?thesis by simp
  qed
  have toggle: "\<exists>pre post. q = pre @ ''bucketed='' @ (if b then ''true'' else ''false'') @ post
              \<and> (pre = [] \<or> last pre = CHR ''&'') \<and> (post = [] \<or> hd post = CHR ''&'')"
    if "map_of params ''bucketed'' = Some (JBool b)"
    using component[OF present[OF that]] by (cases b) (simp_all add: urlencode_true urlencode_false)
  show ?thesis
    using urls nonempty absent present toggle component[OF absent] component[OF present]
    by (simp add: urlencode_true)
qed

theorem getTickets_bucketed_witness:
  "map (req_url \<circ> snd) (sent (getTickets ''http://h'' None (tickets_wire ok_network) 0 []))
     = [''http://h/api/tickets?bucketed=true'']
   \<and> map (req_url \<circ> snd) (sent (getTickets ''http://h'' None (tickets_wire ok_network) 0
         [(''bucketed'', JBool False), (''group'', JStr ''R&A'')]))
     = [''http://h/api/tickets?bucketed=false&group=R%26A'']"
  using getTickets_bucketed [where params = "[]" and base = "''http://h''" and token = None
      and wire = "tickets_wire ok_network" and now = 0]
    getTickets_bucketed [where params = "[(''bucketed'', JBool False), (''group'', JStr ''R&A'')]"
      and base = "''http://h''" and token = None and v = "JBool False" and b = False
      and wire = "tickets_wire ok_network" and now = 0]
  by (simp add: getTickets_def req.simps ok_network_def wire_of_def success_def
        attempt_result_def ok_def options_of_def fetch_request_def tickets_query_def
        own_prop_def URLSearchParams_def toString_def entry_string_def urlencode_def
        urlencode_char_def url_safe_def)

section \<open>Runs on the example data\<close>

text \<open>The equations that evaluate a run on concrete data.\<close>

lemmas run_defs =
  refresh_def updateStatus_def reassign_def addNote_def getMeetingWindow_def getTickets_def
  patchTicket_def addComment_def Promise_all_def refresh_message_def or_else_def
  req.simps attempt_result_def failure_of_def ok_def transient_def retries_of_def
  method_of_def options_of_def fetch_request_def wire_of_def success_def failure_def
  tickets_query_def own_prop_def URLSearchParams_def toString_def entry_string_def
  urlencode_def urlencode_char_def url_safe_def ok_network_def down_network_def
  initial_state_def string_of_int_def digits.simps CLIENT_TAG_def CLIENT_VERSION_def Let_def

section \<open>Properties of \<open>refresh\<close>\<close>

lemma req_settled: "now \<le> settled (req base wire now path opts)"
proof (induction base wire now path opts rule: req.induct)
  case (1 base wire now path opts)
  show ?case
  proof (cases "attempt_result (reply (wire 0))")
    case (Inr v)
    then show ?thesis by (simp add: req_success)
  next
    case (Inl e)
    show ?thesis
    proof (cases "0 < retries_of opts \<and> transient e")
      case True
      with Inl 1 have "now + latency (wire 0)
          \<le> settled (req base (\<lambda>k. wire (Suc k)) (now + latency (wire 0)) path
                (retry_options opts))"
        by simp
      with True Inl show ?thesis by (simp add: req_retry Let_def)
    next
      case False
      with Inl show ?thesis by (simp add: req_no_retry)
    qed
  qed
qed

lemma refresh_message_nonempty: "refresh_message e \<noteq> []"
proof (cases e)
  case (Failure s m)
  then show ?thesis by (simp add: refresh_message_def or_else_def)
next
  case (Exn k m)
  then show ?thesis by (cases k) (simp_all add: refresh_message_def or_else_def)
qed

lemma refresh_rejected:
  assumes "fst (Promise_all (getMeetingWindow base token (window_wire net) now)
                  (getTickets base token (tickets_wire net) now params)) = Inl e"
  shows "state (refresh base token net now st params)
           = st \<lparr> loading := False, err := refresh_message e \<rparr>"
  using assms by (simp add: refresh_def Let_def)

lemma Promise_all_rejected:
  "isl (outcome p1) \<or> isl (outcome p2) \<Longrightarrow> \<exists>e. fst (Promise_all p1 p2) = Inl e"
  by (auto simp: Promise_all_def isl_def split: sum.splits)

text \<open>
  C4 as stated fails: when the meeting-window read fails at tick 1 while the ticket read
  settles at tick 5, \<open>refresh\<close> finishes, and clears \<open>loading\<close>, at tick 1.
\<close>

theorem refresh_loading_counterexample:
  "finished (refresh ''http://h'' None down_network 0 initial_state []) = 1
   \<and> settled (getTickets ''http://h'' None (tickets_wire down_network) 0 []) = 5
   \<and> loading (state (refresh ''http://h'' None down_network 0 initial_state [])) = False"
  by (simp add: run_defs)

text \<open>
  C4, amended. Both reads of \<open>refresh\<close> are issued at the tick of the call, before
  either settles. \<open>loading\<close> is cleared when \<open>refresh\<close> finishes: once both reads
  have succeeded, or as soon as the first of them fails, without waiting for the other.
  When either read fails, the ticket list and the meeting window are left as they were
  and a non-empty error message is stored.
\<close>

theorem refresh_reads:
  fixes base token net now st params
  defines "p1 \<equiv> getMeetingWindow base token (window_wire net) now"
    and "p2 \<equiv> getTickets base token (tickets_wire net) now params"
    and "r \<equiv> refresh base token net now st params"
  shows
    "sent p1 \<noteq> [] \<and> fst (hd (sent p1)) = now \<and> now \<le> settled p1
   \<and> sent p2 \<noteq> [] \<and> fst (hd (sent p2)) = now \<and> now \<le> settled p2
   \<and> requests r = sent p1 @ sent p2
   \<and> loading (state r) = False
   \<and> (\<not> isl (outcome p1) \<and> \<not> isl (outcome p2) \<longrightarrow> finished r = max (settled p1) (settled p2))
   \<and> (isl (outcome p1) \<and> \<not> isl (outcome p2) \<longrightarrow> finished r = settled p1)
   \<and> (\<not> isl (outcome p1) \<and> isl (outcome p2) \<longrightarrow> finished r = settled p2)
   \<and> (isl (outcome p1) \<and> isl (outcome p2) \<longrightarrow> finished r = min (settled p1) (settled p2))
   \<and> (isl (outcome p1) \<or> isl (outcome p2) \<longrightarrow>
        rows (state r) = rows st \<and> meetingWindow (state r) = meetingWindow st
        \<and> err (state r) \<noteq> [])"
proof -
  have issue1: "sent p1 \<noteq> [] \<and> fst (hd (sent p1)) = now"
    using req_sent_hd[of base "window_wire net" now "''/api/meeting-window''"
        "options_of None token None"]
    by (auto simp: p1_def getMeetingWindow_def)
  have issue2: "sent p2 \<noteq> [] \<and> fst (hd (sent p2)) = now"
    using req_sent_hd[of base "tickets_wire net" now _ "options_of None token None"]
    unfolding p2_def getTickets_def Let_def by (metis fst_conv list.discI list.sel(1))
  have late: "now \<le> settled p1" "now \<le> settled p2"
    by (simp_all add: p1_def p2_def getMeetingWindow_def getTickets_def Let_def req_settled)
  have reqs: "requests r = sent p1 @ sent p2"
    by (simp add: r_def p1_def p2_def refresh_def Let_def)
  have cleared: "loading (state r) = False"
    by (simp add: r_def refresh_def Let_def split: sum.splits)
  have fin: "finished r = snd (Promise_all p1 p2)"
    by (simp add: r_def p1_def p2_def refresh_def Let_def)
  have t1: "finished r = max (settled p1) (settled p2)"
    if "\<not> isl (outcome p1)" "\<not> isl (outcome p2)"
    using that by (auto simp: fin Promise_all_def isl_def split: sum.splits)
  have t2: "finished r = settled p1" if "isl (outcome p1)" "\<not> isl (outcome p2)"
    using that by (auto simp: fin Promise_all_def isl_def split: sum.splits)
  have t3: "finished r = settled p2" if "\<not> isl (outcome p1)" "isl (outcome p2)"
    using that by (auto simp: fin Promise_all_def isl_def split: sum.splits)
  have t4: "finished r = min (settled p1) (settled p2)" if "isl (outcome p1)" "isl (outcome p2)"
    using that by (auto simp: fin Promise_all_def isl_def split: sum.splits)
  have stale: "rows (state r) = rows st \<and> meetingWindow (state r) = meetingWindow st
        \<and> err (state r) \<noteq> []"
    if "isl (outcome p1) \<or> isl (outcome p2)"
  proof -
    from Promise_all_rejected[OF that] obtain e where "fst (Promise_all p1 p2) = Inl e" ..
    then have "state r = st \<lparr> loading := False, err := refresh_message e \<rparr>"
      unfolding r_def p1_def p2_def by (rule refresh_rejected)
    then show ?thesis by (simp add: refresh_message_nonempty)
  qed
  show ?thesis
    using issue1 issue2 late reqs cleared t1 t2 t3 t4 stale by blast
qed

theorem refresh_reads_witness:
  "finished (refresh ''http://h'' None down_network 0 initial_state []) = 1
   \<and> rows (state (refresh ''http://h'' None down_network 0 initial_state [])) = JArr []
   \<and> err (state (refresh ''http://h'' None down_network 0 initial_state [])) = ''Error 500: boom''
   \<and> finished (refresh ''http://h'' None ok_network 0 initial_state []) = 1
   \<and> rows (state (refresh ''http://h'' None ok_network 0 initial_state []))
       = JArr [JObj [(''id'', JNum 77)]]"
  using refresh_reads [where base = "''http://h''" and token = None and net = down_network
      and now = 0 and st = initial_state and params = "[]"]
    refresh_reads [where base = "''http://h''" and token = None and net = ok_network
      and now = 0 and st = initial_state and params = "[]"]
  by (simp add: run_defs)

section \<open>Properties of the mutations\<close>

lemma tickets_query_empty: "toString (URLSearchParams (tickets_query [])) = ''bucketed=true''"
  by (simp add: tickets_query_def own_prop_def URLSearchParams_def toString_def entry_string_def
        urlencode_def urlencode_char_def url_safe_def)

lemma getTickets_default_urls:
  "map (req_url \<circ> snd) (sent (getTickets base token wire now []))
     = replicate (length (sent (getTickets base token wire now [])))
         (base @ ''/api/tickets?bucketed=true'')"
proof -
  have "map (req_url \<circ> snd) (sent (getTickets base token wire now []))
      = map req_url (map snd (sent (getTickets base token wire now [])))"
    by simp
  also have "\<dots> = replicate (length (sent (getTickets base token wire now [])))
         (base @ ''/api/tickets?bucketed=true'')"
    unfolding getTickets_def Let_def tickets_query_empty
    by (subst req_sent) (simp add: fetch_request_def)
  finally show ?thesis .
qed

text \<open>
  C9 as stated fails: after a refresh with \<open>{ bucketed: false }\<close>, whose ticket read
  carries \<open>bucketed=false\<close>, a successful \<open>updateStatus\<close> re-fetches with
  \<open>bucketed=true\<close>.
\<close>

theorem updateStatus_filter_counterexample:
  "map (req_url \<circ> snd)
     (requests (refresh ''http://h'' None ok_network 0 initial_state [(''bucketed'', JBool False)]))
     = [''http://h/api/meeting-window'', ''http://h/api/tickets?bucketed=false'']
   \<and> map (req_url \<circ> snd)
     (requests (updateStatus ''http://h'' None ok_network 1
        (state (refresh ''http://h'' None ok_network 0 initial_state [(''bucketed'', JBool False)]))
        (JNum 77) (JStr ''solved'')))
     = [''http://h/api/tickets/77'', ''http://h/api/meeting-window'',
        ''http://h/api/tickets?bucketed=true'']"
  by (simp add: run_defs)

text \<open>
  C9, amended. After a successful \<open>updateStatus\<close> write the hook calls
  \<open>refresh()\<close> with no parameters: the state is that of a refresh with \<open>{}\<close> started
  when the write settled, and every ticket read of it goes to
  \<open>/api/tickets?bucketed=true\<close>, whatever an earlier refresh was called with.
\<close>

theorem updateStatus_refresh_default:
  fixes base token net now st ident s
  defines "p \<equiv> patchTicket base token (write_wire net) now ident (JObj [(''status'', s)])"
  assumes "outcome p = Inr v"
  shows
    "state (updateStatus base token net now st ident s)
       = state (refresh base token net (settled p) st [])
   \<and> requests (updateStatus base token net now st ident s)
       = sent p @ sent (getMeetingWindow base token (window_wire net) (settled p))
           @ sent (getTickets base token (tickets_wire net) (settled p) [])
   \<and> map (req_url \<circ> snd) (sent (getTickets base token (tickets_wire net) (settled p) []))
       = replicate (length (sent (getTickets base token (tickets_wire net) (settled p) [])))
           (base @ ''/api/tickets?bucketed=true'')"
  using assms
  by (simp add: updateStatus_def Let_def getTickets_default_urls)
     (simp add: refresh_def Let_def)

theorem updateStatus_refresh_default_witness:
  "map (req_url \<circ> snd)
     (requests (updateStatus ''http://h'' None ok_network 1 initial_state (JNum 77) (JStr ''solved'')))
     = [''http://h/api/tickets/77'', ''http://h/api/meeting-window'',
        ''http://h/api/tickets?bucketed=true'']"
  using updateStatus_refresh_default [where base = "''http://h''" and token = None
      and net = ok_network and now = 1 and st = initial_state and ident = "JNum 77"
      and s = "JStr ''solved''" and v = "JObj []"]
  by (simp add: run_defs)

text \<open>
  C5 as stated fails: a failed refresh stores its message in \<open>err\<close>, a failed
  \<open>updateStatus\<close> then overwrites that message in the same field, and the next
  refresh blanks the message of the mutation.
\<close>

theorem error_channel_counterexample:
  "err (state (refresh ''http://h'' None down_network 0 initial_state [])) = ''Error 500: boom''
   \<and> err (state (updateStatus ''http://h'' None down_network 1
        (state (refresh ''http://h'' None down_network 0 initial_state []))
        (JNum 77) (JStr ''solved''))) = ''bad''
   \<and> err (state (refresh ''http://h'' None ok_network 2
        (state (updateStatus ''http://h'' None down_network 1
           (state (refresh ''http://h'' None down_network 0 initial_state []))
           (JNum 77) (JStr ''solved''))) [])) = []"
  by (simp add: run_defs)

text \<open>
  C5, amended. A failed write of \<open>updateStatus\<close>, \<open>reassign\<close> or \<open>addNote\<close> changes
  nothing but the field \<open>err\<close>, which receives the message of the failure or the
  default text of the operation. It is the field that \<open>refresh\<close> writes on a failure
  of its own and blanks when its reads succeed.
\<close>

theorem mutation_failure_err:
  "(outcome (patchTicket base token (write_wire net) now ident (JObj [(''status'', s)])) = Inl e
      \<longrightarrow> state (updateStatus base token net now st ident s)
            = st \<lparr> err := or_else (err_message e) ''Failed to update status'' \<rparr>)
   \<and> (outcome (patchTicket base token (write_wire net) now ident (JObj [(''assignee_id'', a)])) = Inl e
      \<longrightarrow> state (reassign base token net now st ident a)
            = st \<lparr> err := or_else (err_message e) ''Failed to reassign ticket'' \<rparr>)
   \<and> (outcome (addComment base token (write_wire net) now ident body isPublic) = Inl e
      \<longrightarrow> state (addNote base token net now st ident body isPublic)
            = st \<lparr> err := or_else (err_message e) ''Failed to add note'' \<rparr>)
   \<and> (fst (Promise_all (getMeetingWindow base token (window_wire net) now)
              (getTickets base token (tickets_wire net) now params)) = Inl e
      \<longrightarrow> state (refresh base token net now st params)
            = st \<lparr> loading := False, err := refresh_message e \<rparr>)
   \<and> (fst (Promise_all (getMeetingWindow base token (window_wire net) now)
              (getTickets base token (tickets_wire net) now params)) = Inr (mw, JObj ps)
      \<longrightarrow> err (state (refresh base token net now st params)) = [])"
  by (simp add: updateStatus_def reassign_def addNote_def Let_def refresh_rejected)
     (simp add: refresh_def Let_def)

theorem mutation_failure_err_witness:
  "state (updateStatus ''http://h'' None down_network 1
      (initial_state \<lparr> err := ''Error 500: boom'' \<rparr>) (JNum 77) (JStr ''solved''))
     = initial_state \<lparr> err := ''bad'' \<rparr>
   \<and> state (reassign ''http://h'' None down_network 1
      (initial_state \<lparr> err := ''Error 500: boom'' \<rparr>) (JNum 77) (JNum 2))
     = initial_state \<lparr> err := ''bad'' \<rparr>
   \<and> state (addNote ''http://h'' None down_network 1
      (initial_state \<lparr> err := ''Error 500: boom'' \<rparr>) (JNum 77) ''note'' False)
     = initial_state \<lparr> err := ''bad'' \<rparr>
   \<and> state (refresh ''http://h'' None down_network 1 (initial_state \<lparr> err := ''bad'' \<rparr>) [])
     = initial_state \<lparr> loading := False, err := ''Error 500: boom'' \<rparr>
   \<and> err (state (refresh ''http://h'' None ok_network 1 (initial_state \<lparr> err := ''bad'' \<rparr>) []))
     = []"
  using mutation_failure_err [where base = "''http://h''" and token = None
      and net = down_network and now = 1 and st = "initial_state \<lparr> err := ''Error 500: boom'' \<rparr>"
      and ident = "JNum 77" and s = "JStr ''solved''" and a = "JNum 2" and body = "''note''"
      and isPublic = False and e = "Failure 400 ''bad''"]
    mutation_failure_err [where base = "''http://h''" and token = None
      and net = down_network and now = 1 and st = "initial_state \<lparr> err := ''bad'' \<rparr>"
      and params = "[]" and e = "Failure 500 ''boom''"]
    mutation_failure_err [where base = "''http://h''" and token = None
      and net = ok_network and now = 1 and st = "initial_state \<lparr> err := ''bad'' \<rparr>"
      and params = "[]"
      and mw = "JObj [(''start'', JStr ''2025-09-01''), (''end'', JStr ''2025-09-15'')]"
      and ps = "[(''rows'', JArr [JObj [(''id'', JNum 77)]])]"]
  by (simp add: run_defs)

section \<open>Properties of the notes editor and \<open>addNote\<close>\<close>

lemma leading_zero_iff:
  assumes "[] \<notin> set ws"
  shows "leading ws s = 0 \<longleftrightarrow> \<not> (\<exists>w \<in> set ws. take (length w) s = w)"
proof (cases "find (\<lambda>w. take (length w) s = w) ws")
  case None
  then have "\<not> (\<exists>w \<in> set ws. take (length w) s = w)"
    by (simp add: find_None_iff)
  with None show ?thesis by (simp add: leading_def)
next
  case (Some w)
  then have "w \<in> set ws" "take (length w) s = w"
    by (auto simp: find_Some_iff)
  moreover from this assms have "length w \<noteq> 0" by auto
  ultimately show ?thesis using Some by (auto simp: leading_def)
qed

lemma strip_leading: "leading ws (strip ws s) = 0"
  by (induction ws s rule: strip.induct) (subst strip.simps, simp)

lemma strip_suffix: "\<exists>p. s = p @ strip ws s"
proof (induction ws s rule: strip.induct)
  case (1 ws s)
  show ?case
  proof (cases "leading ws s = 0")
    case True
    then show ?thesis by (subst strip.simps) simp
  next
    case False
    with 1 obtain p where "drop (leading ws s) s = p @ strip ws (drop (leading ws s) s)"
      by blast
    then have "s = (take (leading ws s) s @ p) @ strip ws (drop (leading ws s) s)"
      by (metis append.assoc append_take_drop_id)
    moreover from False have "strip ws s = strip ws (drop (leading ws s) s)"
      by (subst strip.simps) simp
    ultimately show ?thesis by metis
  qed
qed

lemma strip_id: "leading ws s = 0 \<Longrightarrow> strip ws s = s"
  by (subst strip.simps) simp

lemma leading_take:
  assumes "[] \<notin> set ws" "leading ws t = 0"
  shows "leading ws (take n t) = 0"
proof -
  have "take (length w) t = w" if "w \<in> set ws" "take (length w) (take n t) = w" for w
  proof -
    have "length (take (length w) (take n t)) \<le> n" by simp
    then have "length w \<le> n" by (simp only: that(2))
    then have "take (length w) (take n t) = take (length w) t" by (simp add: min_def)
    with that(2) show ?thesis by simp
  qed
  with assms show ?thesis by (auto simp: leading_zero_iff)
qed

lemma white_space_nonempty: "[] \<notin> set white_space"
  by (simp add: white_space_def)

lemma trim_fixed:
  assumes "leading white_space u = 0" "leading (map rev white_space) (rev u) = 0"
  shows "trim u = u"
proof -
  from assms(1) have "strip white_space u = u" by (rule strip_id)
  moreover from assms(2) have "strip (map rev white_space) (rev u) = rev u" by (rule strip_id)
  ultimately show ?thesis by (simp add: trim_def)
qed

lemma trim_idem: "trim (trim s) = trim s"
proof -
  define t where "t = strip white_space s"
  define v where "v = strip (map rev white_space) (rev t)"
  have u: "trim s = rev v" by (simp add: trim_def t_def v_def)
  obtain p where "rev t = p @ v" unfolding v_def using strip_suffix by blast
  then have "t = rev v @ rev p" by (metis rev_append rev_rev_ident)
  then have a: "take (length (rev v)) t = rev v" by (metis append_eq_conv_conj)
  have "leading white_space t = 0" unfolding t_def by (rule strip_leading)
  then have "leading white_space (take (length (rev v)) t) = 0"
    by (rule leading_take[OF white_space_nonempty])
  then have b: "leading white_space (rev v) = 0" unfolding a .
  have "leading (map rev white_space) v = 0" unfolding v_def by (rule strip_leading)
  then have c: "leading (map rev white_space) (rev (rev v)) = 0" by (simp only: rev_rev_ident)
  from b c have "trim (rev v) = rev v" by (rule trim_fixed)
  then show ?thesis unfolding u .
qed

text \<open>The equations that evaluate \<open>trim\<close> on a given string.\<close>

lemmas trim_defs = trim_def strip.simps leading_def white_space_def

text \<open>
  C3 as stated fails: \<open>addNote(77, "", false)\<close> posts the empty comment, refreshes,
  and leaves no error.
\<close>

theorem addNote_empty_counterexample:
  "trim [] = []
   \<and> map (req_method \<circ> snd)
        (requests (addNote ''http://h'' None ok_network 0 initial_state (JNum 77) [] False))
      = [''POST'', ''GET'', ''GET'']
   \<and> map (req_url \<circ> snd)
        (requests (addNote ''http://h'' None ok_network 0 initial_state (JNum 77) [] False))
      = [''http://h/api/tickets/77/comments'', ''http://h/api/meeting-window'',
         ''http://h/api/tickets?bucketed=true'']
   \<and> map (req_body \<circ> snd)
        (requests (addNote ''http://h'' None ok_network 0 initial_state (JNum 77) [] False))
      = [Some (JObj [(''body'', JStr []), (''public'', JBool False)]), None, None]
   \<and> err (state (addNote ''http://h'' None ok_network 0 initial_state (JNum 77) [] False)) = []"
  by (simp add: run_defs trim_defs)

text \<open>
  C3, amended. \<open>addNote\<close> posts the comment for every body, an empty one included,
  and refreshes after a successful post. The guard against empty notes is in
  \<open>NotesEditor\<close>: its button does nothing when the text trims to empty, and otherwise
  calls \<open>onSubmit\<close> with the trimmed text, which is not empty and does not trim to
  empty, and then clears the text.
\<close>

theorem addNote_posts:
  fixes base token net now st ident body isPublic
  defines "p \<equiv> addComment base token (write_wire net) now ident body isPublic"
  shows
    "(\<exists>rest. requests (addNote base token net now st ident body isPublic)
        = (now, \<lparr> req_method = ''POST'',
                  req_url = base @ ''/api/tickets/'' @ js_String ident @ ''/comments'',
                  req_headers = req_headers (fetch_request base [] (options_of None token None)),
                  req_body = Some (JObj [(''body'', JStr body), (''public'', JBool isPublic)]) \<rparr>)
          # rest)
   \<and> (outcome p = Inr v \<longrightarrow>
        state (addNote base token net now st ident body isPublic)
          = state (refresh base token net (settled p) st [])
        \<and> requests (addNote base token net now st ident body isPublic)
          = sent p @ requests (refresh base token net (settled p) st []))
   \<and> (trim draft = [] \<longrightarrow> NotesEditor_onClick draft flag = [])
   \<and> (trim draft \<noteq> [] \<longrightarrow>
        NotesEditor_onClick draft flag = [OnSubmit (trim draft) flag, SetText []]
        \<and> trim (trim draft) \<noteq> [])
   \<and> (OnSubmit b pub \<in> set (NotesEditor_onClick draft flag)
        \<longrightarrow> b = trim draft \<and> pub = flag \<and> b \<noteq> [] \<and> trim b \<noteq> [])"
proof -
  obtain rest where rest: "sent p = (now, fetch_request base
      (''/api/tickets/'' @ js_String ident @ ''/comments'')
      (options_of (Some ''POST'') token
          (Some (JObj [(''body'', JStr body), (''public'', JBool isPublic)])))) # rest"
    unfolding p_def addComment_def using req_sent_hd by blast
  have first: "\<exists>rest. requests (addNote base token net now st ident body isPublic)
        = (now, \<lparr> req_method = ''POST'',
                  req_url = base @ ''/api/tickets/'' @ js_String ident @ ''/comments'',
                  req_headers = req_headers (fetch_request base [] (options_of None token None)),
                  req_body = Some (JObj [(''body'', JStr body), (''public'', JBool isPublic)]) \<rparr>)
          # rest"
    using rest
    by (cases "outcome p")
       (simp_all add: addNote_def Let_def p_def[symmetric] fetch_request_def options_of_def
          method_of_def)
  have then_refresh: "state (addNote base token net now st ident body isPublic)
          = state (refresh base token net (settled p) st [])
        \<and> requests (addNote base token net now st ident body isPublic)
          = sent p @ requests (refresh base token net (settled p) st [])"
    if "outcome p = Inr v"
    using that by (simp add: addNote_def Let_def p_def[symmetric])
  have guard: "NotesEditor_onClick draft flag = []" if "trim draft = []"
    using that by (simp add: NotesEditor_onClick_def)
  have submits: "NotesEditor_onClick draft flag = [OnSubmit (trim draft) flag, SetText []]
        \<and> trim (trim draft) \<noteq> []"
    if "trim draft \<noteq> []"
    using that by (simp add: NotesEditor_onClick_def trim_idem)
  have submitted: "b = trim draft \<and> pub = flag \<and> b \<noteq> [] \<and> trim b \<noteq> []"
    if "OnSubmit b pub \<in> set (NotesEditor_onClick draft flag)"
    using that by (auto simp: NotesEditor_onClick_def trim_idem split: if_splits)
  show ?thesis
    using first then_refresh guard submits submitted by blast
qed

theorem addNote_posts_witness:
  "map (req_method \<circ> snd)
        (requests (addNote ''http://h'' None ok_network 0 initial_state (JNum 77) ''call back'' True))
      = [''POST'', ''GET'', ''GET'']
   \<and> NotesEditor_onClick ''   '' False = []
   \<and> NotesEditor_onClick [CHR 0xC2, CHR 0xA0] False = []
   \<and> NotesEditor_onClick '' call back '' True = [OnSubmit ''call back'' True, SetText []]"
  using addNote_posts [where base = "''http://h''" and token = None and net = ok_network
      and now = 0 and st = initial_state and ident = "JNum 77" and body = "''call back''"
      and isPublic = True and v = "JObj []" and draft = "''   ''" and flag = False
      and b = "[]" and pub = False]
    addNote_posts [where base = "''http://h''" and token = None and net = ok_network
      and now = 0 and st = initial_state and ident = "JNum 77" and body = "''call back''"
      and isPublic = True and v = "JObj []" and draft = "[CHR 0xC2, CHR 0xA0]" and flag = False
      and b = "[]" and pub = False]
    addNote_posts [where base = "''http://h''" and token = None and net = ok_network
      and now = 0 and st = initial_state and ident = "JNum 77" and body = "''call back''"
      and isPublic = True and v = "JObj []" and draft = "'' call back ''" and flag = True
      and b = "''call back''" and pub = True]
  by (simp add: run_defs NotesEditor_onClick_def trim_defs)

section \<open>Properties of the row workflow\<close>

text \<open>
  C1 fails on the code. Selecting agent 2 (group \<open>Policy\<close>) for ticket 77 makes
  \<open>TicketRow\<close> call \<open>onReassign(77, { assignee_id: 2, group_id: "Policy" })\<close>; the
  hook's \<open>reassign(id, assignee_id)\<close> wraps its second argument again, so the body of
  the \<open>PATCH\<close> is \<open>{ assignee_id: { assignee_id: 2, group_id: "Policy" } }\<close>: it has
  no top-level \<open>group_id\<close>, and its top-level \<open>assignee_id\<close> is an object, not 2.
\<close>

theorem reassign_body_nested:
  "map_modelled (map (req_method \<circ> snd) \<circ> concat \<circ> map requests)
     (select_assignee ''http://h'' None ok_network 0 initial_state
        example_row example_users (JNum 77) ''2'')
     = Modelled [''PATCH'', ''GET'', ''GET'']
   \<and> map_modelled (map (req_url \<circ> snd) \<circ> concat \<circ> map requests)
     (select_assignee ''http://h'' None ok_network 0 initial_state
        example_row example_users (JNum 77) ''2'')
     = Modelled [''http://h/api/tickets/77'', ''http://h/api/meeting-window'',
        ''http://h/api/tickets?bucketed=true'']
   \<and> map_modelled (map (req_body \<circ> snd) \<circ> concat \<circ> map requests)
     (select_assignee ''http://h'' None ok_network 0 initial_state
        example_row example_users (JNum 77) ''2'')
     = Modelled [Some (JObj [(''assignee_id'',
                     JObj [(''assignee_id'', JNum 2), (''group_id'', JStr ''Policy'')])]),
        None, None]
   \<and> own_prop [(''assignee_id'', JObj [(''assignee_id'', JNum 2), (''group_id'', JStr ''Policy'')])]
        ''group_id'' = JUndefined
   \<and> own_prop [(''assignee_id'', JObj [(''assignee_id'', JNum 2), (''group_id'', JStr ''Policy'')])]
        ''assignee_id'' = JObj [(''assignee_id'', JNum 2), (''group_id'', JStr ''Policy'')]"
  by (simp add: run_defs select_assignee_def onChange_assignee_def example_users_def
        example_row_def)





end
